theory Spec2Isabelle
  imports Main
begin

section \<open>JavaScript values\<close>

text \<open>
  Values of TypeScript type \<open>any\<close> (response bodies, the \<open>message\<close> field of a body).
  A number is represented by the text JavaScript's own number-to-string conversion gives
  for it (\<open>''422''\<close>, \<open>''0.5''\<close>, \<open>''NaN''\<close>), so no arithmetic on floating point is needed:
  the code only tests numbers for truthiness and converts them to strings.
  An object is the list of its own properties in enumeration order, with distinct keys.
  Strings are byte strings (the UTF-8 encoding of the JavaScript string).
\<close>

datatype js =
    JUndefined
  | JNull
  | JBool bool
  | JNum string
  | JStr string
  | JArr "js list"
  | JObj "(string \<times> js) list"

text \<open>Truthiness, as tested by \<open>!x\<close>, \<open>x || y\<close> and \<open>if (x)\<close>.\<close>

fun truthy :: "js \<Rightarrow> bool" where
  "truthy JUndefined = False"
| "truthy JNull = False"
| "truthy (JBool b) = b"
| "truthy (JNum s) = (if s = ''0'' then False else if s = ''NaN'' then False else True)"
| "truthy (JStr s) = (if s = '''' then False else True)"
| "truthy (JArr xs) = True"
| "truthy (JObj kvs) = True"

fun join_comma :: "string list \<Rightarrow> string" where
  "join_comma [] = ''''"
| "join_comma [s] = s"
| "join_comma (s # t # ss) = s @ '','' @ join_comma (t # ss)"

text \<open>
  The string conversion that the \<open>Error\<close> constructor applies to its argument; \<open>None\<close> is
  the \<open>TypeError\<close> it raises when there is no conversion. A plain object converts through
  the inherited \<open>toString\<close> to \<open>[object Object]\<close>, unless it has an own property named
  \<open>toString\<close>: that shadows the inherited method, is not callable (no value of \<open>js\<close> is),
  and \<open>valueOf\<close>, own or inherited, gives no primitive either, so the conversion fails. An
  array is the comma-joined conversion of its elements, with \<open>null\<close> and \<open>undefined\<close>
  elements empty, and fails when the conversion of an element fails.
\<close>

fun ToString :: "js \<Rightarrow> string option" where
  "ToString JUndefined = Some ''undefined''"
| "ToString JNull = Some ''null''"
| "ToString (JBool b) = Some (if b then ''true'' else ''false'')"
| "ToString (JNum s) = Some s"
| "ToString (JStr s) = Some s"
| "ToString (JArr xs) =
     map_option join_comma
       (those (map (\<lambda>x. case x of JUndefined \<Rightarrow> Some '''' | JNull \<Rightarrow> Some '''' | _ \<Rightarrow> ToString x) xs))"
| "ToString (JObj kvs) =
     (case map_of kvs ''toString'' of None \<Rightarrow> Some ''[object Object]'' | Some v \<Rightarrow> None)"

text \<open>\<open>x?.message\<close> on a value of type \<open>any\<close>: only an object can own the property.\<close>

fun optional_message :: "js \<Rightarrow> js" where
  "optional_message (JObj kvs) = (case map_of kvs ''message'' of None \<Rightarrow> JUndefined | Some v \<Rightarrow> v)"
| "optional_message v = JUndefined"

text \<open>\<open>a || b\<close>.\<close>

definition or_else :: "js \<Rightarrow> js \<Rightarrow> js" where
  "or_else a b = (if truthy a then a else b)"


section \<open>Types of the SDK\<close>

datatype lang = fr | en

fun lang_string :: "lang \<Rightarrow> string" where
  "lang_string fr = ''fr''"
| "lang_string en = ''en''"

text \<open>
  \<open>BaseGenes\<close>. The declared type of both fields is a pair of strings; at run time each is
  an array that may be missing or of another length, which is what \<open>validateGenes\<close>
  tests, so a field is an optional list.
\<close>

record BaseGenes =
  extension :: "string list option"
  agouti :: "string list option"

type_synonym OthersGenes = "(string \<times> js) list"

text \<open>\<open>HorseGenes\<close>; \<open>base\<close> is optional because \<open>validateGenes\<close> tests for its absence.\<close>

record HorseGenes =
  base :: "BaseGenes option"
  others :: "OthersGenes option"
  lang :: "lang option"

record KitLinkage =
  linkage_mother :: "js list option"
  linkage_father :: "js list option"

text \<open>\<open>OffspringGenes\<close> (the field \<open>lang\<close> is \<open>offspring_lang\<close> here).\<close>

record OffspringGenes =
  mother :: HorseGenes
  father :: HorseGenes
  kit_linkage :: "KitLinkage option"
  has_IDK :: "bool option"
  offspring_lang :: "lang option"

text \<open>Server results are passed through without being read.\<close>

type_synonym CoatResult = js
type_synonym OffspringResult = js

text \<open>
  \<open>UnikhornConfig\<close>. \<open>apiKey\<close> is optional because the constructor tests for its absence.
\<close>

record UnikhornConfig =
  apiKey :: "string option"
  baseURL :: "string option"
  language :: "lang option"
  timeout :: "int option"

text \<open>\<open>class UnikhornAPIError extends Error\<close>; an absent \<open>response\<close> is \<open>JUndefined\<close>.\<close>

record UnikhornAPIError =
  name :: string
  message :: string
  statusCode :: "int option"
  response :: js


section \<open>The transport\<close>

record AxiosResponse =
  status :: int
  data :: js

text \<open>
  What a \<open>catch\<close> block can receive. \<open>AxiosError r q\<close> is the transport's own error: \<open>r\<close> is
  its \<open>response\<close> field and \<open>q\<close> tells whether its \<open>request\<close> field is set. It is the only
  value for which \<open>axios.isAxiosError\<close> holds. \<open>PlainError m\<close> is \<open>new Error(m)\<close>;
  \<open>TypeError\<close> is the run-time exception of reading a property of \<open>undefined\<close>.
\<close>

datatype thrown =
    AxiosError "AxiosResponse option" bool
  | APIError UnikhornAPIError
  | PlainError string
  | TypeError

text \<open>
  \<open>new UnikhornAPIError(message, statusCode, response)\<close>: \<open>super(message)\<close> converts the
  message to a string, and the \<open>TypeError\<close> of a failed conversion leaves the constructor.
\<close>

definition new_UnikhornAPIError :: "js \<Rightarrow> int option \<Rightarrow> js \<Rightarrow> thrown + UnikhornAPIError" where
  "new_UnikhornAPIError msg sc resp =
     (case (case msg of JUndefined \<Rightarrow> Some '''' | _ \<Rightarrow> ToString msg) of
        None \<Rightarrow> Inl TypeError
      | Some m \<Rightarrow>
          Inr \<lparr> name = ''UnikhornAPIError'', message = m, statusCode = sc, response = resp \<rparr>)"

text \<open>The value thrown by the statement \<open>throw new UnikhornAPIError(...)\<close>.\<close>

definition throw_new_UnikhornAPIError :: "js \<Rightarrow> int option \<Rightarrow> js \<Rightarrow> thrown" where
  "throw_new_UnikhornAPIError msg sc resp =
     (case new_UnikhornAPIError msg sc resp of Inl e \<Rightarrow> e | Inr a \<Rightarrow> APIError a)"

datatype http_method = GET | POST

record request =
  req_method :: http_method
  url :: string
  body :: "string option"
  headers :: "(string \<times> string) list"

text \<open>
  A response interceptor: what the fulfilled handler returns, and what the rejected
  handler throws (the one installed by the SDK never returns normally).
\<close>

record interceptor =
  fulfilled :: "AxiosResponse \<Rightarrow> AxiosResponse"
  rejected :: "thrown \<Rightarrow> thrown"

record AxiosInstance =
  axios_baseURL :: string
  axios_timeout :: int
  axios_headers :: "(string \<times> string) list"
  interceptors_response :: "interceptor list"

text \<open>
  The network is outside the program: the outcome of a request is given by an oracle that
  sees the requests sent before it. Every request sent is appended to a log, which the
  methods pass along, so that "no request is sent" is a property of the log.
\<close>

type_synonym network = "request list \<Rightarrow> request \<Rightarrow> thrown + AxiosResponse"

fun run_interceptors :: "interceptor list \<Rightarrow> thrown + AxiosResponse \<Rightarrow> thrown + AxiosResponse" where
  "run_interceptors [] out = out"
| "run_interceptors (i # is) (Inr r) = run_interceptors is (Inr (fulfilled i r))"
| "run_interceptors (i # is) (Inl e) = run_interceptors is (Inl (rejected i e))"

text \<open>\<open>instance.get\<close> and \<open>instance.post\<close>: send, log, then run the response interceptors.\<close>

definition axios_request ::
  "AxiosInstance \<Rightarrow> network \<Rightarrow> request list \<Rightarrow> request \<Rightarrow> (thrown + AxiosResponse) \<times> request list" where
  "axios_request inst net log rq =
     (run_interceptors (interceptors_response inst) (net log rq), log @ [rq])"


section \<open>Form bodies\<close>

text \<open>\<open>URLSearchParams\<close>: an ordered list of name and value pairs; \<open>append\<close> adds at the end.\<close>

type_synonym URLSearchParams = "(string \<times> string) list"

definition append_entry :: "URLSearchParams \<Rightarrow> string \<Rightarrow> string \<Rightarrow> URLSearchParams" where
  "append_entry formData k v = formData @ [(k, v)]"

definition hex_digit :: "nat \<Rightarrow> char" where
  "hex_digit n = ''0123456789ABCDEF'' ! (n mod 16)"

definition form_safe :: "char \<Rightarrow> bool" where
  "form_safe c =
     (c \<in> set ''ABCDEFGHIJKLMNOPQRSTUVWXYZabcdefghijklmnopqrstuvwxyz0123456789*-._'')"

definition form_encode_byte :: "char \<Rightarrow> string" where
  "form_encode_byte c =
     (if c = CHR '' '' then ''+''
      else if form_safe c then [c]
      else [CHR ''%'', hex_digit (of_char c div 16), hex_digit (of_char c mod 16)])"

definition form_encode :: "string \<Rightarrow> string" where
  "form_encode s = concat (map form_encode_byte s)"

fun join_amp :: "string list \<Rightarrow> string" where
  "join_amp [] = ''''"
| "join_amp [s] = s"
| "join_amp (s # t # ss) = s @ ''&'' @ join_amp (t # ss)"

text \<open>\<open>formData.toString()\<close>: the \<open>application/x-www-form-urlencoded\<close> serialisation.\<close>

definition toString :: "URLSearchParams \<Rightarrow> string" where
  "toString formData = join_amp (map (\<lambda>(k, v). form_encode k @ ''='' @ form_encode v) formData)"

text \<open>
  The inverse direction, \<open>new URLSearchParams(body)\<close>: split at \<open>&\<close>, drop empty pieces,
  split each piece at its first \<open>=\<close>, turn \<open>+\<close> into a space and decode \<open>%XX\<close>. A \<open>%\<close>
  that is not followed by two hexadecimal digits stays as it is.
\<close>

definition hex_value :: "char \<Rightarrow> nat option" where
  "hex_value c =
     (let n = of_char c :: nat in
      if 48 \<le> n \<and> n \<le> 57 then Some (n - 48)
      else if 65 \<le> n \<and> n \<le> 70 then Some (n - 55)
      else if 97 \<le> n \<and> n \<le> 102 then Some (n - 87)
      else None)"

fun form_decode :: "string \<Rightarrow> string" where
  "form_decode [] = []"
| "form_decode (c # cs) =
     (if c = CHR ''+'' then CHR '' '' # form_decode cs
      else if c = CHR ''%'' then
        (case cs of
           h1 # h2 # rest \<Rightarrow>
             (case (hex_value h1, hex_value h2) of
                (Some a, Some b) \<Rightarrow> char_of (a * 16 + b) # form_decode rest
              | _ \<Rightarrow> c # form_decode cs)
         | _ \<Rightarrow> c # form_decode cs)
      else c # form_decode cs)"

fun split_on :: "char \<Rightarrow> string \<Rightarrow> string list" where
  "split_on d [] = [[]]"
| "split_on d (c # cs) =
     (if c = d then [] # split_on d cs
      else (case split_on d cs of [] \<Rightarrow> [[c]] | s # ss \<Rightarrow> (c # s) # ss))"

definition name_value :: "string \<Rightarrow> string \<times> string" where
  "name_value s =
     (takeWhile (\<lambda>c. c \<noteq> CHR ''='') s, drop 1 (dropWhile (\<lambda>c. c \<noteq> CHR ''='') s))"

definition URLSearchParams_parse :: "string \<Rightarrow> URLSearchParams" where
  "URLSearchParams_parse s =
     map (\<lambda>seg. case name_value seg of (k, v) \<Rightarrow> (form_decode k, form_decode v))
       (filter (\<lambda>seg. seg \<noteq> []) (split_on CHR ''&'' s))"

text \<open>
  \<open>xs[i]\<close> passed to \<open>append\<close>: an index out of range reads \<open>undefined\<close>, which \<open>append\<close>
  converts to the string \<open>undefined\<close>.
\<close>

definition index_string :: "string list \<Rightarrow> nat \<Rightarrow> string" where
  "index_string xs i = (if i < length xs then xs ! i else ''undefined'')"

text \<open>
  \<open>JSON.stringify\<close> is a parameter of the model. Its argument is one of the three kinds
  of object the SDK serialises.
\<close>

datatype json_arg =
    GenesArg HorseGenes
  | OthersArg OthersGenes
  | LinkageArg KitLinkage


section \<open>The client\<close>

record UnikhornCoatCalculator =
  client :: AxiosInstance
  this_language :: lang

text \<open>\<open>handleError\<close>: the value it throws.\<close>

definition handleError :: "thrown \<Rightarrow> thrown" where
  "handleError error =
     (case error of
        AxiosError resp req \<Rightarrow>
          (case resp of
             Some r \<Rightarrow>
               throw_new_UnikhornAPIError
                 (or_else (optional_message (data r)) (JStr ''API request failed''))
                 (Some (status r))
                 (data r)
           | None \<Rightarrow>
               if req then throw_new_UnikhornAPIError (JStr ''No response from server'') (Some 0) JUndefined
               else throw_new_UnikhornAPIError (JStr ''An unexpected error occurred'') None JUndefined)
      | _ \<Rightarrow> throw_new_UnikhornAPIError (JStr ''An unexpected error occurred'') None JUndefined)"

text \<open>The constructor. A falsy \<open>apiKey\<close> is an absent or an empty one.\<close>

definition new_UnikhornCoatCalculator :: "UnikhornConfig \<Rightarrow> thrown + UnikhornCoatCalculator" where
  "new_UnikhornCoatCalculator config =
     (case apiKey config of
        None \<Rightarrow> Inl (PlainError ''API key is required'')
      | Some key \<Rightarrow>
          if key = '''' then Inl (PlainError ''API key is required'')
          else Inr
            \<lparr> client =
                \<lparr> axios_baseURL =
                    (case baseURL config of
                       None \<Rightarrow> ''https://api.unikhorn.io/v1''
                     | Some u \<Rightarrow> if u = '''' then ''https://api.unikhorn.io/v1'' else u),
                  axios_timeout =
                    (case timeout config of
                       None \<Rightarrow> 30000
                     | Some t \<Rightarrow> if t = 0 then 30000 else t),
                  axios_headers =
                    [(''Authorization'', ''Bearer '' @ key),
                     (''X-API-Key'', key),
                     (''Content-Type'', ''application/json''),
                     (''X-SDK-Version'', ''1.0.0''),
                     (''X-SDK-Language'', ''JavaScript'')],
                  interceptors_response =
                    [\<lparr> fulfilled = (\<lambda>response. response), rejected = handleError \<rparr>] \<rparr>,
              this_language = (case language config of None \<Rightarrow> en | Some l \<Rightarrow> l) \<rparr>)"

definition createClient :: "UnikhornConfig \<Rightarrow> thrown + UnikhornCoatCalculator" where
  "createClient config = new_UnikhornCoatCalculator config"

definition setLanguage :: "UnikhornCoatCalculator \<Rightarrow> lang \<Rightarrow> UnikhornCoatCalculator" where
  "setLanguage self l = self\<lparr> this_language := l \<rparr>"

text \<open>
  The body of the \<open>try\<close> block of \<open>calculateSingleCoat\<close> up to the request: the form, or
  the exception raised while reading the genes.
\<close>

definition calculateSingleCoat_formData ::
  "(json_arg \<Rightarrow> string) \<Rightarrow> UnikhornCoatCalculator \<Rightarrow> HorseGenes \<Rightarrow> thrown + URLSearchParams" where
  "calculateSingleCoat_formData JSON_stringify self genes =
     (case base genes of
        None \<Rightarrow> Inl TypeError
      | Some b \<Rightarrow>
          (case extension b of
             None \<Rightarrow> Inl TypeError
           | Some ext \<Rightarrow>
               (case agouti b of
                  None \<Rightarrow> Inl TypeError
                | Some ago \<Rightarrow>
                    (let formData = [];
                         formData = append_entry formData ''base[extension][]'' (index_string ext 0);
                         formData = append_entry formData ''base[extension][]'' (index_string ext 1);
                         formData = append_entry formData ''base[agouti][]'' (index_string ago 0);
                         formData = append_entry formData ''base[agouti][]'' (index_string ago 1);
                         formData = append_entry formData ''lang''
                           (lang_string (case lang genes of Some l \<Rightarrow> l | None \<Rightarrow> this_language self));
                         formData =
                           (case others genes of
                              Some ot \<Rightarrow> append_entry formData ''others'' (JSON_stringify (OthersArg ot))
                            | None \<Rightarrow> formData)
                     in Inr formData))))"

definition calculateSingleCoat ::
  "(json_arg \<Rightarrow> string) \<Rightarrow> UnikhornCoatCalculator \<Rightarrow> network \<Rightarrow> request list \<Rightarrow> HorseGenes
     \<Rightarrow> (thrown + CoatResult) \<times> request list" where
  "calculateSingleCoat JSON_stringify self net log genes =
     (case calculateSingleCoat_formData JSON_stringify self genes of
        Inl error \<Rightarrow> (Inl (handleError error), log)
      | Inr formData \<Rightarrow>
          (case axios_request (client self) net log
                  \<lparr> req_method = POST, url = ''/coats/result'', body = Some (toString formData),
                    headers = [(''Content-Type'', ''application/x-www-form-urlencoded'')] \<rparr> of
             (Inl error, log') \<Rightarrow> (Inl (handleError error), log')
           | (Inr resp, log') \<Rightarrow> (Inr (data resp), log')))"

definition calculateOffspring_formData ::
  "(json_arg \<Rightarrow> string) \<Rightarrow> UnikhornCoatCalculator \<Rightarrow> OffspringGenes \<Rightarrow> URLSearchParams" where
  "calculateOffspring_formData JSON_stringify self offspring =
     (let formData = [];
          formData = append_entry formData ''mother'' (JSON_stringify (GenesArg (mother offspring)));
          formData = append_entry formData ''father'' (JSON_stringify (GenesArg (father offspring)));
          formData = append_entry formData ''lang''
            (lang_string (case offspring_lang offspring of Some l \<Rightarrow> l | None \<Rightarrow> this_language self));
          formData =
            (case kit_linkage offspring of
               Some k \<Rightarrow> append_entry formData ''kit_linkage'' (JSON_stringify (LinkageArg k))
             | None \<Rightarrow> formData);
          formData =
            (case has_IDK offspring of
               Some b \<Rightarrow> append_entry formData ''has_IDK'' (if b then ''true'' else ''false'')
             | None \<Rightarrow> formData)
      in formData)"

definition calculateOffspring ::
  "(json_arg \<Rightarrow> string) \<Rightarrow> UnikhornCoatCalculator \<Rightarrow> network \<Rightarrow> request list \<Rightarrow> OffspringGenes
     \<Rightarrow> (thrown + OffspringResult) \<times> request list" where
  "calculateOffspring JSON_stringify self net log offspring =
     (case axios_request (client self) net log
             \<lparr> req_method = POST, url = ''/coats/generateChild'',
               body = Some (toString (calculateOffspring_formData JSON_stringify self offspring)),
               headers = [(''Content-Type'', ''application/x-www-form-urlencoded'')] \<rparr> of
        (Inl error, log') \<Rightarrow> (Inl (handleError error), log')
      | (Inr resp, log') \<Rightarrow> (Inr (data resp), log'))"

record horse =
  id' :: string
  genes :: HorseGenes

text \<open>The \<open>for\<close> loop of \<open>batchCalculate\<close>, with \<open>results\<close> as the accumulator.\<close>

fun batchCalculate_loop ::
  "(json_arg \<Rightarrow> string) \<Rightarrow> UnikhornCoatCalculator \<Rightarrow> network \<Rightarrow> request list \<Rightarrow> horse list
     \<Rightarrow> (string \<times> CoatResult) list \<Rightarrow> (thrown + (string \<times> CoatResult) list) \<times> request list" where
  "batchCalculate_loop JSON_stringify self net log [] results = (Inr results, log)"
| "batchCalculate_loop JSON_stringify self net log (h # hs) results =
     (case calculateSingleCoat JSON_stringify self net log (genes h) of
        (Inr result, log') \<Rightarrow>
          batchCalculate_loop JSON_stringify self net log' hs (results @ [(id' h, result)])
      | (Inl error, log') \<Rightarrow> (Inl (handleError error), log'))"

definition batchCalculate ::
  "(json_arg \<Rightarrow> string) \<Rightarrow> UnikhornCoatCalculator \<Rightarrow> network \<Rightarrow> request list \<Rightarrow> horse list
     \<Rightarrow> (thrown + (string \<times> CoatResult) list) \<times> request list" where
  "batchCalculate JSON_stringify self net log horses =
     batchCalculate_loop JSON_stringify self net log horses []"

definition getAllCoatColors ::
  "UnikhornCoatCalculator \<Rightarrow> network \<Rightarrow> request list \<Rightarrow> (thrown + CoatResult list) \<times> request list" where
  "getAllCoatColors self net log =
     (Inl (throw_new_UnikhornAPIError
        (JStr ''This endpoint is not available in the current API version'') None JUndefined), log)"

record validation =
  valid :: bool
  errors :: "string list option"

definition validateGenes ::
  "UnikhornCoatCalculator \<Rightarrow> network \<Rightarrow> request list \<Rightarrow> HorseGenes
     \<Rightarrow> (thrown + validation) \<times> request list" where
  "validateGenes self net log g =
     (let errs = [];
          errs =
            (case base g of
               None \<Rightarrow> errs @ [''Base genes are required'']
             | Some b \<Rightarrow>
                 (let errs =
                        (case extension b of
                           None \<Rightarrow> errs @ [''Extension gene must have exactly 2 alleles'']
                         | Some ext \<Rightarrow>
                             if length ext = 2 then errs
                             else errs @ [''Extension gene must have exactly 2 alleles'']);
                      errs =
                        (case agouti b of
                           None \<Rightarrow> errs @ [''Agouti gene must have exactly 2 alleles'']
                         | Some ago \<Rightarrow>
                             if length ago = 2 then errs
                             else errs @ [''Agouti gene must have exactly 2 alleles''])
                  in errs))
      in (Inr \<lparr> valid = (length errs = 0),
                errors = (if length errs > 0 then Some errs else None) \<rparr>, log))"

definition getUsageStats ::
  "UnikhornCoatCalculator \<Rightarrow> network \<Rightarrow> request list \<Rightarrow> (thrown + js) \<times> request list" where
  "getUsageStats self net log =
     (Inl (throw_new_UnikhornAPIError
        (JStr ''This endpoint is not available in the current API version'') None JUndefined), log)"

definition getApiInfo ::
  "UnikhornCoatCalculator \<Rightarrow> network \<Rightarrow> request list \<Rightarrow> (thrown + js) \<times> request list" where
  "getApiInfo self net log =
     (case axios_request (client self) net log
             \<lparr> req_method = GET, url = ''/coats/api-info'', body = None, headers = [] \<rparr> of
        (Inl error, log') \<Rightarrow> (Inl (handleError error), log')
      | (Inr resp, log') \<Rightarrow> (Inr (data resp), log'))"

section \<open>Example inputs\<close>

definition example_config :: UnikhornConfig where
  "example_config = \<lparr> apiKey = Some ''test-key'', baseURL = None, language = None, timeout = None \<rparr>"

text \<open>The client that the constructor builds from \<open>example_config\<close>.\<close>

definition example_client :: UnikhornCoatCalculator where
  "example_client =
     \<lparr> client =
         \<lparr> axios_baseURL = ''https://api.unikhorn.io/v1'',
           axios_timeout = 30000,
           axios_headers =
             [(''Authorization'', ''Bearer test-key''),
              (''X-API-Key'', ''test-key''),
              (''Content-Type'', ''application/json''),
              (''X-SDK-Version'', ''1.0.0''),
              (''X-SDK-Language'', ''JavaScript'')],
           interceptors_response =
             [\<lparr> fulfilled = (\<lambda>response. response), rejected = handleError \<rparr>] \<rparr>,
       this_language = en \<rparr>"

definition example_genes :: HorseGenes where
  "example_genes =
     \<lparr> base = Some \<lparr> extension = Some [''E'', ''e''], agouti = Some [''A'', ''a''] \<rparr>,
       others = None, lang = None \<rparr>"

definition example_offspring :: OffspringGenes where
  "example_offspring =
     \<lparr> mother = example_genes, father = example_genes, kit_linkage = None,
       has_IDK = Some False, offspring_lang = Some fr \<rparr>"

text \<open>
  A stand-in for \<open>JSON.stringify\<close>, right on the objects of the examples: \<open>example_genes\<close>,
  the \<open>others\<close> mapping with the one locus \<open>dun\<close>, and an empty linkage object.
\<close>

fun example_stringify :: "json_arg \<Rightarrow> string" where
  "example_stringify (GenesArg g) =
     ''{\"base\":{\"extension\":[\"E\",\"e\"],\"agouti\":[\"A\",\"a\"]}}''"
| "example_stringify (OthersArg ot) = ''{\"dun\":[\"D\",\"nd1\"]}''"
| "example_stringify (LinkageArg k) = ''{}''"

text \<open>A server that answers every request with status 422 and a message.\<close>

definition net_422 :: network where
  "net_422 = (\<lambda>log rq.
     Inl (AxiosError (Some \<lparr> status = 422, data = JObj [(''message'', JStr ''invalid allele'')] \<rparr>) True))"

text \<open>A network on which every request is sent and no response arrives.\<close>

definition net_timeout :: network where
  "net_timeout = (\<lambda>log rq. Inl (AxiosError None True))"

text \<open>A server that answers the first request and rejects every later one.\<close>

definition net_second_fails :: network where
  "net_second_fails = (\<lambda>log rq.
     case log of
       [] \<Rightarrow> Inr \<lparr> status = 200, data = JObj [(''translate'', JStr ''Bay'')] \<rparr>
     | _ \<Rightarrow> Inl (AxiosError (Some \<lparr> status = 422, data = JObj [(''message'', JStr ''invalid allele'')] \<rparr>) True))"

text \<open>
  A server that answers every request with status 422 and a body whose \<open>message\<close> is an
  object with an own property \<open>toString\<close>.
\<close>

definition net_unprintable :: network where
  "net_unprintable = (\<lambda>log rq.
     Inl (AxiosError (Some \<lparr> status = 422,
       data = JObj [(''message'', JObj [(''toString'', JNum ''1'')])] \<rparr>) True))"

definition net_ok :: network where
  "net_ok = (\<lambda>log rq. Inr \<lparr> status = 200, data = JObj [(''translate'', JStr ''Bay'')] \<rparr>)"


section \<open>The error mapper\<close>

lemma throw_new_string:
  "throw_new_UnikhornAPIError (JStr s) sc resp =
     APIError \<lparr> name = ''UnikhornAPIError'', message = s, statusCode = sc, response = resp \<rparr>"
  by (simp add: throw_new_UnikhornAPIError_def new_UnikhornAPIError_def)

text \<open>An object has a string conversion exactly when it has no own property \<open>toString\<close>.\<close>

lemma ToString_JObj: "(ToString (JObj kvs) = None) = (''toString'' \<in> fst ` set kvs)"
  using map_of_eq_None_iff[of kvs "''toString''"] by (auto split: option.splits)

text \<open>
  Applied to a transport error with a response, the mapper alone keeps the status and the
  body, and takes the message from the body when that is truthy. When the message to
  report has no string conversion, the constructor of the error raises a \<open>TypeError\<close>, and
  that is what the mapper throws.
\<close>

lemma handleError_response:
  "handleError (AxiosError (Some r) q) =
     (case ToString (or_else (optional_message (data r)) (JStr ''API request failed'')) of
        None \<Rightarrow> TypeError
      | Some m \<Rightarrow>
          APIError \<lparr> name = ''UnikhornAPIError'', message = m,
                     statusCode = Some (status r), response = data r \<rparr>)"
  by (cases "optional_message (data r)")
     (simp_all add: handleError_def throw_new_UnikhornAPIError_def new_UnikhornAPIError_def
        or_else_def split: option.splits)

lemma handleError_no_response:
  "handleError (AxiosError None True) =
     APIError \<lparr> name = ''UnikhornAPIError'', message = ''No response from server'',
                statusCode = Some 0, response = JUndefined \<rparr>"
  by (simp add: handleError_def throw_new_string)

lemma handleError_cases: "handleError e = TypeError \<or> (\<exists>a. handleError e = APIError a)"
proof (cases e)
  case (AxiosError resp req)
  show ?thesis
  proof (cases resp)
    case None
    with AxiosError show ?thesis by (simp add: handleError_def throw_new_string)
  next
    case (Some r)
    with AxiosError show ?thesis
      by (simp add: handleError_response split: option.splits)
  qed
qed (simp_all add: handleError_def throw_new_string)

text \<open>
  Neither a \<open>UnikhornAPIError\<close> nor a \<open>TypeError\<close> is a transport error, so mapping what the
  mapper threw gives the generic error: the message, the status and the body of the
  first mapping are gone.
\<close>

lemma handleError_APIError:
  "handleError (APIError a) =
     APIError \<lparr> name = ''UnikhornAPIError'', message = ''An unexpected error occurred'',
                statusCode = None, response = JUndefined \<rparr>"
  by (simp add: handleError_def throw_new_string)

lemma handleError_TypeError:
  "handleError TypeError =
     APIError \<lparr> name = ''UnikhornAPIError'', message = ''An unexpected error occurred'',
                statusCode = None, response = JUndefined \<rparr>"
  by (simp add: handleError_def throw_new_string)

lemma handleError_twice:
  "handleError (handleError e) =
     APIError \<lparr> name = ''UnikhornAPIError'', message = ''An unexpected error occurred'',
                statusCode = None, response = JUndefined \<rparr>"
  using handleError_cases[of e] by (auto simp: handleError_APIError handleError_TypeError)

text \<open>
  The constructor installs \<open>handleError\<close> as the rejected handler of the one response
  interceptor, so a request that fails comes back from the transport already mapped.
\<close>

lemma constructor_interceptor:
  "new_UnikhornCoatCalculator config = Inr self \<Longrightarrow>
     interceptors_response (client self) =
       [\<lparr> fulfilled = (\<lambda>response. response), rejected = handleError \<rparr>]"
  by (auto simp: new_UnikhornCoatCalculator_def split: option.splits if_splits)

lemma axios_request_rejected:
  "interceptors_response inst = [\<lparr> fulfilled = f, rejected = handleError \<rparr>] \<Longrightarrow>
   net log rq = Inl e \<Longrightarrow>
     axios_request inst net log rq = (Inl (handleError e), log @ [rq])"
  by (simp add: axios_request_def)

text \<open>What \<open>calculateSingleCoat\<close> rejects with has gone through the mapper, on every client.\<close>

lemma calculateSingleCoat_error_mapped:
  "fst (calculateSingleCoat S self net log g) = Inl e \<Longrightarrow> \<exists>x. e = handleError x"
  by (auto simp: calculateSingleCoat_def split: sum.splits prod.splits)

text \<open>
  Hence every failure of a network method on a client with the constructed transport,
  whatever the transport reported, reaches the caller as the generic error; for
  \<open>batchCalculate\<close>, which maps the error of \<open>calculateSingleCoat\<close> once more, this holds on
  every client.
\<close>

lemma axios_request_mapped:
  "interceptors_response inst = [\<lparr> fulfilled = f, rejected = handleError \<rparr>] \<Longrightarrow>
   fst (axios_request inst net log rq) = Inl e \<Longrightarrow> \<exists>e0. e = handleError e0"
  by (cases "net log rq") (auto simp: axios_request_def)

lemma getApiInfo_failure_generic:
  assumes "interceptors_response (client self) = [\<lparr> fulfilled = f, rejected = handleError \<rparr>]"
    and "fst (getApiInfo self net log) = Inl e"
  shows "e = APIError \<lparr> name = ''UnikhornAPIError'', message = ''An unexpected error occurred'',
                         statusCode = None, response = JUndefined \<rparr>"
proof -
  let ?rq = "\<lparr> req_method = GET, url = ''/coats/api-info'', body = None, headers = [] \<rparr>"
  obtain out log' where a: "axios_request (client self) net log ?rq = (out, log')"
    by (cases "axios_request (client self) net log ?rq")
  with assms(2) obtain e1 where o: "out = Inl e1" and e: "e = handleError e1"
    by (cases out) (auto simp: getApiInfo_def)
  from a o have "fst (axios_request (client self) net log ?rq) = Inl e1" by simp
  with assms(1) obtain e0 where "e1 = handleError e0"
    using axios_request_mapped by blast
  with e show ?thesis by (simp add: handleError_twice)
qed

lemma calculateOffspring_failure_generic:
  assumes "interceptors_response (client self) = [\<lparr> fulfilled = f, rejected = handleError \<rparr>]"
    and "fst (calculateOffspring S self net log off) = Inl e"
  shows "e = APIError \<lparr> name = ''UnikhornAPIError'', message = ''An unexpected error occurred'',
                         statusCode = None, response = JUndefined \<rparr>"
proof -
  let ?rq = "\<lparr> req_method = POST, url = ''/coats/generateChild'',
               body = Some (toString (calculateOffspring_formData S self off)),
               headers = [(''Content-Type'', ''application/x-www-form-urlencoded'')] \<rparr>"
  obtain out log' where a: "axios_request (client self) net log ?rq = (out, log')"
    by (cases "axios_request (client self) net log ?rq")
  with assms(2) obtain e1 where o: "out = Inl e1" and e: "e = handleError e1"
    by (cases out) (auto simp: calculateOffspring_def)
  from a o have "fst (axios_request (client self) net log ?rq) = Inl e1" by simp
  with assms(1) obtain e0 where "e1 = handleError e0"
    using axios_request_mapped by blast
  with e show ?thesis by (simp add: handleError_twice)
qed

lemma calculateSingleCoat_failure_generic:
  assumes "interceptors_response (client self) = [\<lparr> fulfilled = f, rejected = handleError \<rparr>]"
    and "fst (calculateSingleCoat S self net log g) = Inl e"
  shows "e = APIError \<lparr> name = ''UnikhornAPIError'', message = ''An unexpected error occurred'',
                         statusCode = None, response = JUndefined \<rparr>"
proof (cases "calculateSingleCoat_formData S self g")
  case (Inl err)
  then have "err = TypeError"
    by (auto simp: calculateSingleCoat_formData_def Let_def split: option.splits)
  with Inl assms(2) show ?thesis
    by (simp add: calculateSingleCoat_def handleError_TypeError)
next
  case (Inr formData)
  let ?rq = "\<lparr> req_method = POST, url = ''/coats/result'', body = Some (toString formData),
               headers = [(''Content-Type'', ''application/x-www-form-urlencoded'')] \<rparr>"
  obtain out log' where a: "axios_request (client self) net log ?rq = (out, log')"
    by (cases "axios_request (client self) net log ?rq")
  with Inr assms(2) obtain e1 where o: "out = Inl e1" and e: "e = handleError e1"
    by (cases out) (auto simp: calculateSingleCoat_def)
  from a o have "fst (axios_request (client self) net log ?rq) = Inl e1" by simp
  with assms(1) obtain e0 where "e1 = handleError e0"
    using axios_request_mapped by blast
  with e show ?thesis by (simp add: handleError_twice)
qed


section \<open>The batch loop\<close>

lemma batchCalculate_loop_failure_generic:
  "fst (batchCalculate_loop S self net log hs acc) = Inl e \<Longrightarrow>
     e = APIError \<lparr> name = ''UnikhornAPIError'', message = ''An unexpected error occurred'',
                     statusCode = None, response = JUndefined \<rparr>"
proof (induction hs arbitrary: log acc)
  case Nil
  then show ?case by simp
next
  case (Cons h hs)
  obtain out log' where c: "calculateSingleCoat S self net log (genes h) = (out, log')"
    by (cases "calculateSingleCoat S self net log (genes h)")
  show ?case
  proof (cases out)
    case (Inl err)
    with c have "fst (calculateSingleCoat S self net log (genes h)) = Inl err" by simp
    then obtain x where "err = handleError x" using calculateSingleCoat_error_mapped by blast
    moreover from Inl c Cons.prems have "e = handleError err" by simp
    ultimately show ?thesis by (simp add: handleError_twice)
  next
    case (Inr r)
    with c Cons.prems
    have "fst (batchCalculate_loop S self net log' hs (acc @ [(id' h, r)])) = Inl e" by simp
    then show ?thesis by (rule Cons.IH)
  qed
qed

text \<open>Running the loop over \<open>xs @ ys\<close> is running it over \<open>xs\<close> and, unless that failed, over \<open>ys\<close>.\<close>

lemma batchCalculate_loop_append:
  "batchCalculate_loop S self net log (xs @ ys) acc =
     (case batchCalculate_loop S self net log xs acc of
        (Inr rs, log1) \<Rightarrow> batchCalculate_loop S self net log1 ys rs
      | (Inl e, log1) \<Rightarrow> (Inl e, log1))"
  by (induction xs arbitrary: log acc) (auto split: prod.splits sum.splits)

lemma batchCalculate_loop_ids:
  "batchCalculate_loop S self net log hs acc = (Inr rs, log') \<Longrightarrow>
     map fst rs = map fst acc @ map id' hs"
  by (induction hs arbitrary: log acc) (auto split: prod.splits sum.splits)

lemma calculateSingleCoat_success:
  "calculateSingleCoat S self net log g = (Inr r, log') \<Longrightarrow>
     \<exists>f. calculateSingleCoat_formData S self g = Inr f \<and>
         log' = log @ [\<lparr> req_method = POST, url = ''/coats/result'', body = Some (toString f),
                          headers = [(''Content-Type'', ''application/x-www-form-urlencoded'')] \<rparr>]"
  by (auto simp: calculateSingleCoat_def axios_request_def split: sum.splits)

lemma batchCalculate_loop_log:
  "batchCalculate_loop S self net log hs acc = (Inr rs, log') \<Longrightarrow>
     log' = log @ map (\<lambda>h. \<lparr> req_method = POST, url = ''/coats/result'',
                 body = (case calculateSingleCoat_formData S self (genes h) of
                           Inr f \<Rightarrow> Some (toString f) | Inl e \<Rightarrow> None),
                 headers = [(''Content-Type'', ''application/x-www-form-urlencoded'')] \<rparr>) hs"
proof (induction hs arbitrary: log acc)
  case Nil
  then show ?case by simp
next
  case (Cons h hs)
  obtain out log1 where c: "calculateSingleCoat S self net log (genes h) = (out, log1)"
    by (cases "calculateSingleCoat S self net log (genes h)")
  show ?case
  proof (cases out)
    case (Inl e)
    with c Cons.prems show ?thesis by simp
  next
    case (Inr r)
    with c Cons.prems
    have "batchCalculate_loop S self net log1 hs (acc @ [(id' h, r)]) = (Inr rs, log')" by simp
    from Cons.IH[OF this] calculateSingleCoat_success[OF c[unfolded Inr]]
    show ?thesis by auto
  qed
qed

lemma calculateOffspring_log:
  "snd (calculateOffspring S self net log off) =
     log @ [\<lparr> req_method = POST, url = ''/coats/generateChild'',
              body = Some (toString (calculateOffspring_formData S self off)),
              headers = [(''Content-Type'', ''application/x-www-form-urlencoded'')] \<rparr>]"
  by (simp add: calculateOffspring_def axios_request_def split: sum.split)

section \<open>The serialised form can be read back\<close>

lemma hex_digits:
  "\<forall>k \<in> set [0..<16].
     hex_value (hex_digit k) = Some k \<and> hex_digit k \<noteq> CHR ''&'' \<and> hex_digit k \<noteq> CHR ''=''"
  by code_simp

lemma hex_value_hex_digit: "k < 16 \<Longrightarrow> hex_value (hex_digit k) = Some k"
  using hex_digits by simp

lemma hex_digit_plain: "hex_digit k \<noteq> CHR ''&'' \<and> hex_digit k \<noteq> CHR ''=''"
proof -
  have "hex_digit k = hex_digit (k mod 16)" by (simp add: hex_digit_def)
  moreover have "k mod 16 \<in> set [0..<16]" by simp
  ultimately show ?thesis using hex_digits by metis
qed

lemma form_safe_plain:
  "form_safe c \<Longrightarrow> c \<noteq> CHR ''+'' \<and> c \<noteq> CHR ''%'' \<and> c \<noteq> CHR ''&'' \<and> c \<noteq> CHR ''=''"
  by (auto simp: form_safe_def)

lemma form_decode_byte: "form_decode (form_encode_byte c @ r) = c # form_decode r"
proof (cases "c = CHR '' ''")
  case True
  then show ?thesis by (simp add: form_encode_byte_def)
next
  case sp: False
  show ?thesis
  proof (cases "form_safe c")
    case True
    with sp form_safe_plain[OF True] show ?thesis by (simp add: form_encode_byte_def)
  next
    case False
    have hi: "(of_char c :: nat) div 16 < 16"
      using nat_of_char_less_256[of c] by arith
    have lo: "(of_char c :: nat) mod 16 < 16" by simp
    have "char_of ((of_char c :: nat) div 16 * 16 + of_char c mod 16) = c"
      by simp
    with sp False hex_value_hex_digit[OF hi] hex_value_hex_digit[OF lo]
    show ?thesis by (simp add: form_encode_byte_def)
  qed
qed

lemma form_decode_encode_append: "form_decode (form_encode s @ r) = s @ form_decode r"
  by (induction s) (simp_all add: form_encode_def form_decode_byte)

lemma form_decode_encode: "form_decode (form_encode s) = s"
  using form_decode_encode_append[of s "[]"] by simp

lemma form_encode_byte_plain:
  "CHR ''&'' \<notin> set (form_encode_byte c) \<and> CHR ''='' \<notin> set (form_encode_byte c)"
proof -
  have "hex_digit (of_char c div 16) \<noteq> CHR ''&''" and "hex_digit (of_char c div 16) \<noteq> CHR ''=''"
    and "hex_digit (of_char c mod 16) \<noteq> CHR ''&''" and "hex_digit (of_char c mod 16) \<noteq> CHR ''=''"
    using hex_digit_plain by blast+
  then show ?thesis
    using form_safe_plain[of c] by (auto simp: form_encode_byte_def)
qed

lemma form_encode_plain:
  "CHR ''&'' \<notin> set (form_encode s) \<and> CHR ''='' \<notin> set (form_encode s)"
  using form_encode_byte_plain by (induction s) (auto simp: form_encode_def)

lemma split_on_none: "d \<notin> set a \<Longrightarrow> split_on d a = [a]"
  by (induction a) auto

lemma split_on_first: "d \<notin> set a \<Longrightarrow> split_on d (a @ d # r) = a # split_on d r"
  by (induction a) auto

lemma name_value_pair: "CHR ''='' \<notin> set k \<Longrightarrow> name_value (k @ CHR ''='' # v) = (k, v)"
  by (induction k) (auto simp: name_value_def)

lemma toString_Cons:
  "toString (e # f) =
     form_encode (fst e) @ ''='' @ form_encode (snd e) @ (if f = [] then [] else ''&'' @ toString f)"
  by (cases f) (auto simp: toString_def split: prod.splits)

text \<open>Parsing the text of a form gives the form back, entry by entry and in order.\<close>

lemma parse_toString: "URLSearchParams_parse (toString f) = f"
proof (induction f)
  case Nil
  show ?case by (simp add: URLSearchParams_parse_def toString_def)
next
  case (Cons e f)
  let ?seg = "form_encode (fst e) @ CHR ''='' # form_encode (snd e)"
  have amp: "CHR ''&'' \<notin> set ?seg" using form_encode_plain by simp
  have nv: "name_value ?seg = (form_encode (fst e), form_encode (snd e))"
    using form_encode_plain by (simp add: name_value_pair)
  have ne: "?seg \<noteq> []" by simp
  show ?case
  proof (cases "f = []")
    case True
    then have "toString (e # f) = ?seg" by (simp add: toString_Cons)
    then show ?thesis
      using True split_on_none[OF amp] nv ne
      by (simp add: URLSearchParams_parse_def form_decode_encode)
  next
    case False
    then have "toString (e # f) = ?seg @ CHR ''&'' # toString f" by (simp add: toString_Cons)
    then have "split_on CHR ''&'' (toString (e # f)) = ?seg # split_on CHR ''&'' (toString f)"
      using split_on_first[OF amp] by simp
    then show ?thesis
      using Cons.IH nv ne
      by (simp add: URLSearchParams_parse_def form_decode_encode)
  qed
qed


section \<open>Claims\<close>

text \<open>
  C1. Every network method (\<open>calculateSingleCoat\<close>, \<open>calculateOffspring\<close>,
  \<open>batchCalculate\<close>, \<open>getApiInfo\<close>) should reject a transport failure that carries the
  server response 422 with body \<open>{"message": "invalid allele"}\<close> with a \<open>UnikhornAPIError\<close>
  of message \<open>invalid allele\<close>, status code 422 and the raw body as response. The mapper
  alone produces exactly that error from the transport error. The methods do not: the
  interceptor installed by the constructor has already mapped the failure when the
  \<open>catch\<close> block of the method maps it a second time, and each of the four methods, on the
  client built from \<open>example_config\<close>, rejects with the generic error that has no status
  code and no response.
\<close>

theorem transport_response_lost:
  "new_UnikhornCoatCalculator example_config = Inr example_client \<and>
   handleError (AxiosError (Some \<lparr> status = 422,
       data = JObj [(''message'', JStr ''invalid allele'')] \<rparr>) True) =
     APIError \<lparr> name = ''UnikhornAPIError'', message = ''invalid allele'',
                statusCode = Some 422, response = JObj [(''message'', JStr ''invalid allele'')] \<rparr> \<and>
   fst (calculateSingleCoat example_stringify example_client net_422 [] example_genes) =
     Inl (APIError \<lparr> name = ''UnikhornAPIError'', message = ''An unexpected error occurred'',
                      statusCode = None, response = JUndefined \<rparr>) \<and>
   fst (calculateOffspring example_stringify example_client net_422 [] example_offspring) =
     Inl (APIError \<lparr> name = ''UnikhornAPIError'', message = ''An unexpected error occurred'',
                      statusCode = None, response = JUndefined \<rparr>) \<and>
   fst (batchCalculate example_stringify example_client net_422 []
          [\<lparr> id' = ''a'', genes = example_genes \<rparr>]) =
     Inl (APIError \<lparr> name = ''UnikhornAPIError'', message = ''An unexpected error occurred'',
                      statusCode = None, response = JUndefined \<rparr>) \<and>
   fst (getApiInfo example_client net_422 []) =
     Inl (APIError \<lparr> name = ''UnikhornAPIError'', message = ''An unexpected error occurred'',
                      statusCode = None, response = JUndefined \<rparr>)"
proof (intro conjI)
  show "new_UnikhornCoatCalculator example_config = Inr example_client"
    by (simp add: new_UnikhornCoatCalculator_def example_config_def example_client_def)
qed code_simp+

text \<open>
  C2. Every network method should reject a request that was sent and got no response with
  a \<open>UnikhornAPIError\<close> of status code 0 and message \<open>No response from server\<close>. The mapper
  alone produces that error. The four methods, on the constructed client, reject with the
  generic error without a status code, for the same reason as in C1: the failure is
  mapped once by the interceptor and again by the method.
\<close>

theorem no_response_status_lost:
  "handleError (AxiosError None True) =
     APIError \<lparr> name = ''UnikhornAPIError'', message = ''No response from server'',
                statusCode = Some 0, response = JUndefined \<rparr> \<and>
   fst (calculateSingleCoat example_stringify example_client net_timeout [] example_genes) =
     Inl (APIError \<lparr> name = ''UnikhornAPIError'', message = ''An unexpected error occurred'',
                      statusCode = None, response = JUndefined \<rparr>) \<and>
   fst (calculateOffspring example_stringify example_client net_timeout [] example_offspring) =
     Inl (APIError \<lparr> name = ''UnikhornAPIError'', message = ''An unexpected error occurred'',
                      statusCode = None, response = JUndefined \<rparr>) \<and>
   fst (batchCalculate example_stringify example_client net_timeout []
          [\<lparr> id' = ''a'', genes = example_genes \<rparr>]) =
     Inl (APIError \<lparr> name = ''UnikhornAPIError'', message = ''An unexpected error occurred'',
                      statusCode = None, response = JUndefined \<rparr>) \<and>
   fst (getApiInfo example_client net_timeout []) =
     Inl (APIError \<lparr> name = ''UnikhornAPIError'', message = ''An unexpected error occurred'',
                      statusCode = None, response = JUndefined \<rparr>)"
  by (intro conjI) code_simp+

text \<open>
  C3. The claim as stated fails in its last part: the error mapper is not total. For a
  transport error whose response body is \<open>{"message": {"toString": 1}}\<close> the message to
  report is an object without a string conversion, the constructor of the error raises a
  \<open>TypeError\<close>, and the mapper throws that \<open>TypeError\<close>, not a \<open>UnikhornAPIError\<close>.
\<close>

theorem handleError_not_total_counterexample:
  "handleError (AxiosError (Some \<lparr> status = 422,
       data = JObj [(''message'', JObj [(''toString'', JNum ''1'')])] \<rparr>) True) = TypeError"
  by code_simp

text \<open>
  C3, amended. On a client whose transport is the one the constructor built (the
  language may have been set since), whatever the network, the requests sent so far and
  the arguments, an error that a method surfaces is a \<open>UnikhornAPIError\<close>: this holds for
  the four network methods (transport failures and exceptions raised while the request
  is built alike, and also when the mapper itself raised a \<open>TypeError\<close> in the interceptor,
  since the \<open>catch\<close> block of the method maps it) and for the two unsupported operations;
  \<open>validateGenes\<close> never fails. The error mapper yields a \<open>UnikhornAPIError\<close> on every input
  except a transport error with a response whose message to report (the \<open>message\<close> of the
  body when truthy, the fixed text otherwise) has no string conversion; on that input it
  throws a \<open>TypeError\<close>.
\<close>

theorem only_UnikhornAPIError_surfaces:
  assumes "new_UnikhornCoatCalculator config = Inr self0" and "client self = client self0"
  shows
  "(\<forall>e. fst (calculateSingleCoat S self net log g) = Inl e \<longrightarrow> (\<exists>a. e = APIError a)) \<and>
   (\<forall>e. fst (calculateOffspring S self net log off) = Inl e \<longrightarrow> (\<exists>a. e = APIError a)) \<and>
   (\<forall>e. fst (batchCalculate S self net log hs) = Inl e \<longrightarrow> (\<exists>a. e = APIError a)) \<and>
   (\<forall>e. fst (getApiInfo self net log) = Inl e \<longrightarrow> (\<exists>a. e = APIError a)) \<and>
   (\<forall>e. fst (getAllCoatColors self net log) = Inl e \<longrightarrow> (\<exists>a. e = APIError a)) \<and>
   (\<forall>e. fst (getUsageStats self net log) = Inl e \<longrightarrow> (\<exists>a. e = APIError a)) \<and>
   (\<exists>v. fst (validateGenes self net log g) = Inr v) \<and>
   ((\<forall>r q. x = AxiosError (Some r) q \<longrightarrow>
        ToString (or_else (optional_message (data r)) (JStr ''API request failed'')) \<noteq> None) \<longrightarrow>
      (\<exists>a. handleError x = APIError a)) \<and>
   (\<forall>r q. x = AxiosError (Some r) q \<and>
        ToString (or_else (optional_message (data r)) (JStr ''API request failed'')) = None \<longrightarrow>
      handleError x = TypeError)"
proof -
  have i: "interceptors_response (client self) =
      [\<lparr> fulfilled = (\<lambda>response. response), rejected = handleError \<rparr>]"
    using constructor_interceptor[OF assms(1)] assms(2) by simp
  show ?thesis
  proof (intro conjI allI impI)
    fix e assume "fst (calculateSingleCoat S self net log g) = Inl e"
    with i show "\<exists>a. e = APIError a"
      using calculateSingleCoat_failure_generic by blast
  next
    fix e assume "fst (calculateOffspring S self net log off) = Inl e"
    with i show "\<exists>a. e = APIError a"
      using calculateOffspring_failure_generic by blast
  next
    fix e assume "fst (batchCalculate S self net log hs) = Inl e"
    then show "\<exists>a. e = APIError a"
      unfolding batchCalculate_def using batchCalculate_loop_failure_generic by blast
  next
    fix e assume "fst (getApiInfo self net log) = Inl e"
    with i show "\<exists>a. e = APIError a"
      using getApiInfo_failure_generic by blast
  next
    fix e assume "fst (getAllCoatColors self net log) = Inl e"
    then show "\<exists>a. e = APIError a" by (auto simp: getAllCoatColors_def throw_new_string)
  next
    fix e assume "fst (getUsageStats self net log) = Inl e"
    then show "\<exists>a. e = APIError a" by (auto simp: getUsageStats_def throw_new_string)
  next
    show "\<exists>v. fst (validateGenes self net log g) = Inr v"
      by (simp add: validateGenes_def Let_def)
  next
    assume ok: "\<forall>r q. x = AxiosError (Some r) q \<longrightarrow>
        ToString (or_else (optional_message (data r)) (JStr ''API request failed'')) \<noteq> None"
    show "\<exists>a. handleError x = APIError a"
    proof (cases x)
      case (AxiosError resp req)
      show ?thesis
      proof (cases resp)
        case None
        with AxiosError show ?thesis by (simp add: handleError_def throw_new_string)
      next
        case (Some r)
        with AxiosError ok
        have "ToString (or_else (optional_message (data r)) (JStr ''API request failed'')) \<noteq> None"
          by blast
        with AxiosError Some show ?thesis
          by (auto simp: handleError_response)
      qed
    qed (simp_all add: handleError_def throw_new_string)
  next
    fix r q
    assume "x = AxiosError (Some r) q \<and>
        ToString (or_else (optional_message (data r)) (JStr ''API request failed'')) = None"
    then show "handleError x = TypeError"
      by (simp add: handleError_response)
  qed
qed

text \<open>
  On the constructed client: an exception raised while the request is built, a request
  without response, a batch whose second call fails, and a 422 whose message has no
  string conversion, which the mapper turns into a \<open>TypeError\<close> and the method into the
  generic \<open>UnikhornAPIError\<close>.
\<close>

theorem only_UnikhornAPIError_surfaces_witness:
  "new_UnikhornCoatCalculator example_config = Inr example_client \<and>
   fst (calculateSingleCoat example_stringify example_client net_422 []
          (example_genes\<lparr> base := None \<rparr>)) =
     Inl (APIError \<lparr> name = ''UnikhornAPIError'', message = ''An unexpected error occurred'',
                      statusCode = None, response = JUndefined \<rparr>) \<and>
   fst (calculateOffspring example_stringify example_client net_timeout [] example_offspring) =
     Inl (APIError \<lparr> name = ''UnikhornAPIError'', message = ''An unexpected error occurred'',
                      statusCode = None, response = JUndefined \<rparr>) \<and>
   fst (batchCalculate example_stringify example_client net_second_fails []
          [\<lparr> id' = ''a'', genes = example_genes \<rparr>, \<lparr> id' = ''b'', genes = example_genes \<rparr>]) =
     Inl (APIError \<lparr> name = ''UnikhornAPIError'', message = ''An unexpected error occurred'',
                      statusCode = None, response = JUndefined \<rparr>) \<and>
   fst (getApiInfo example_client net_unprintable []) =
     Inl (APIError \<lparr> name = ''UnikhornAPIError'', message = ''An unexpected error occurred'',
                      statusCode = None, response = JUndefined \<rparr>) \<and>
   ToString (or_else (optional_message (JObj [(''message'', JObj [(''toString'', JNum ''1'')])]))
       (JStr ''API request failed'')) = None \<and>
   handleError (AxiosError (Some \<lparr> status = 422,
       data = JObj [(''message'', JObj [(''toString'', JNum ''1'')])] \<rparr>) True) = TypeError \<and>
   (\<exists>a. handleError (AxiosError None True) = APIError a) \<and>
   (\<exists>a. APIError \<lparr> name = ''UnikhornAPIError'', message = ''An unexpected error occurred'',
                     statusCode = None, response = JUndefined \<rparr> = APIError a)"
proof -
  let ?r = "\<lparr> status = 422, data = JObj [(''message'', JObj [(''toString'', JNum ''1'')])] \<rparr>"
  have c: "new_UnikhornCoatCalculator example_config = Inr example_client"
    by (simp add: new_UnikhornCoatCalculator_def example_config_def example_client_def)
  have h1: "fst (calculateSingleCoat example_stringify example_client net_422 []
          (example_genes\<lparr> base := None \<rparr>)) =
     Inl (APIError \<lparr> name = ''UnikhornAPIError'', message = ''An unexpected error occurred'',
                      statusCode = None, response = JUndefined \<rparr>)"
    by code_simp
  have h2: "fst (calculateOffspring example_stringify example_client net_timeout [] example_offspring) =
     Inl (APIError \<lparr> name = ''UnikhornAPIError'', message = ''An unexpected error occurred'',
                      statusCode = None, response = JUndefined \<rparr>)"
    by code_simp
  have h3: "fst (batchCalculate example_stringify example_client net_second_fails []
          [\<lparr> id' = ''a'', genes = example_genes \<rparr>, \<lparr> id' = ''b'', genes = example_genes \<rparr>]) =
     Inl (APIError \<lparr> name = ''UnikhornAPIError'', message = ''An unexpected error occurred'',
                      statusCode = None, response = JUndefined \<rparr>)"
    by code_simp
  have h4: "fst (getApiInfo example_client net_unprintable []) =
     Inl (APIError \<lparr> name = ''UnikhornAPIError'', message = ''An unexpected error occurred'',
                      statusCode = None, response = JUndefined \<rparr>)"
    by code_simp
  have u: "ToString (or_else (optional_message (data ?r)) (JStr ''API request failed'')) = None"
    by code_simp
  have u': "ToString (or_else (optional_message (JObj [(''message'', JObj [(''toString'', JNum ''1'')])]))
       (JStr ''API request failed'')) = None"
    using u by simp
  note t1 = only_UnikhornAPIError_surfaces[OF c refl, of example_stringify net_422 "[]"
      "example_genes\<lparr> base := None \<rparr>" _ _ "AxiosError (Some ?r) True"]
  note t2 = only_UnikhornAPIError_surfaces[OF c refl, of example_stringify net_422 "[]"
      "example_genes\<lparr> base := None \<rparr>" _ _ "AxiosError None True"]
  from t1 h1
  have g: "\<exists>a. APIError \<lparr> name = ''UnikhornAPIError'', message = ''An unexpected error occurred'',
                     statusCode = None, response = JUndefined \<rparr> = APIError a"
    by blast
  from t1 u have ty: "handleError (AxiosError (Some ?r) True) = TypeError"
    by blast
  from t2 have ok: "\<exists>a. handleError (AxiosError None True) = APIError a"
    by blast
  from c h1 h2 h3 h4 u' ty ok g show ?thesis by blast
qed

text \<open>
  C4. \<open>batchCalculate\<close> calls \<open>calculateSingleCoat\<close> for the items one after another in
  input order, each call starting from the log the previous one left. An empty batch
  returns the empty list. If the items before \<open>h\<close> succeeded with results \<open>rs\<close> and the call
  for \<open>h\<close> succeeds with \<open>r\<close>, the batch up to \<open>h\<close> returns \<open>rs\<close> followed by the pair of the
  id of \<open>h\<close> and \<open>r\<close>. If instead the call for \<open>h\<close> fails with \<open>e\<close>, the whole batch, whatever
  items follow \<open>h\<close>, rejects with the mapped error \<open>handleError e\<close>, sends nothing after the
  failed call, and returns none of \<open>rs\<close>. A batch that succeeds returns one pair per item,
  the ids in input order, and has sent exactly one request per item, in input order.
\<close>

theorem batchCalculate_sequential:
  "batchCalculate S self net log [] = (Inr [], log) \<and>
   (\<forall>rs log1 r log2.
      batchCalculate S self net log pre = (Inr rs, log1) \<and>
      calculateSingleCoat S self net log1 (genes h) = (Inr r, log2) \<longrightarrow>
        batchCalculate S self net log (pre @ [h]) = (Inr (rs @ [(id' h, r)]), log2)) \<and>
   (\<forall>rs log1 e log2.
      batchCalculate S self net log pre = (Inr rs, log1) \<and>
      calculateSingleCoat S self net log1 (genes h) = (Inl e, log2) \<longrightarrow>
        batchCalculate S self net log (pre @ h # post) = (Inl (handleError e), log2)) \<and>
   (\<forall>rs log'.
      batchCalculate S self net log hs = (Inr rs, log') \<longrightarrow>
        map fst rs = map id' hs \<and>
        log' = log @ map (\<lambda>h. \<lparr> req_method = POST, url = ''/coats/result'',
                    body = (case calculateSingleCoat_formData S self (genes h) of
                              Inr f \<Rightarrow> Some (toString f) | Inl e \<Rightarrow> None),
                    headers = [(''Content-Type'', ''application/x-www-form-urlencoded'')] \<rparr>) hs)"
proof (intro conjI allI impI)
  show "batchCalculate S self net log [] = (Inr [], log)"
    by (simp add: batchCalculate_def)
next
  fix rs log1 r log2
  assume "batchCalculate S self net log pre = (Inr rs, log1) \<and>
      calculateSingleCoat S self net log1 (genes h) = (Inr r, log2)"
  then show "batchCalculate S self net log (pre @ [h]) = (Inr (rs @ [(id' h, r)]), log2)"
    by (simp add: batchCalculate_def batchCalculate_loop_append)
next
  fix rs log1 e log2
  assume "batchCalculate S self net log pre = (Inr rs, log1) \<and>
      calculateSingleCoat S self net log1 (genes h) = (Inl e, log2)"
  then show "batchCalculate S self net log (pre @ h # post) = (Inl (handleError e), log2)"
    by (simp add: batchCalculate_def batchCalculate_loop_append)
next
  fix rs log'
  assume "batchCalculate S self net log hs = (Inr rs, log')"
  then show "map fst rs = map id' hs"
    using batchCalculate_loop_ids[of S self net log hs "[]" rs log']
    by (simp add: batchCalculate_def)
next
  fix rs log'
  assume "batchCalculate S self net log hs = (Inr rs, log')"
  then show "log' = log @ map (\<lambda>h. \<lparr> req_method = POST, url = ''/coats/result'',
                    body = (case calculateSingleCoat_formData S self (genes h) of
                              Inr f \<Rightarrow> Some (toString f) | Inl e \<Rightarrow> None),
                    headers = [(''Content-Type'', ''application/x-www-form-urlencoded'')] \<rparr>) hs"
    unfolding batchCalculate_def by (rule batchCalculate_loop_log)
qed

text \<open>
  The batch of the items \<open>a\<close> and \<open>b\<close> on a server that answers the first request only: the
  call for \<open>a\<close> succeeds, the call for \<open>b\<close> fails, and the batch rejects without the result
  for \<open>a\<close>, after two requests.
\<close>

theorem batchCalculate_sequential_witness:
  "batchCalculate example_stringify example_client net_second_fails []
      [\<lparr> id' = ''a'', genes = example_genes \<rparr>] =
     (Inr [(''a'', JObj [(''translate'', JStr ''Bay'')])],
      [\<lparr> req_method = POST, url = ''/coats/result'',
         body = Some ''base%5Bextension%5D%5B%5D=E&base%5Bextension%5D%5B%5D=e&base%5Bagouti%5D%5B%5D=A&base%5Bagouti%5D%5B%5D=a&lang=en'',
         headers = [(''Content-Type'', ''application/x-www-form-urlencoded'')] \<rparr>]) \<and>
   calculateSingleCoat example_stringify example_client net_second_fails
      [\<lparr> req_method = POST, url = ''/coats/result'',
         body = Some ''base%5Bextension%5D%5B%5D=E&base%5Bextension%5D%5B%5D=e&base%5Bagouti%5D%5B%5D=A&base%5Bagouti%5D%5B%5D=a&lang=en'',
         headers = [(''Content-Type'', ''application/x-www-form-urlencoded'')] \<rparr>] example_genes =
     (Inl (APIError \<lparr> name = ''UnikhornAPIError'', message = ''An unexpected error occurred'',
                       statusCode = None, response = JUndefined \<rparr>),
      [\<lparr> req_method = POST, url = ''/coats/result'',
         body = Some ''base%5Bextension%5D%5B%5D=E&base%5Bextension%5D%5B%5D=e&base%5Bagouti%5D%5B%5D=A&base%5Bagouti%5D%5B%5D=a&lang=en'',
         headers = [(''Content-Type'', ''application/x-www-form-urlencoded'')] \<rparr>,
       \<lparr> req_method = POST, url = ''/coats/result'',
         body = Some ''base%5Bextension%5D%5B%5D=E&base%5Bextension%5D%5B%5D=e&base%5Bagouti%5D%5B%5D=A&base%5Bagouti%5D%5B%5D=a&lang=en'',
         headers = [(''Content-Type'', ''application/x-www-form-urlencoded'')] \<rparr>]) \<and>
   batchCalculate example_stringify example_client net_second_fails []
      ([\<lparr> id' = ''a'', genes = example_genes \<rparr>] @
       \<lparr> id' = ''b'', genes = example_genes \<rparr> # [\<lparr> id' = ''c'', genes = example_genes \<rparr>]) =
     (Inl (APIError \<lparr> name = ''UnikhornAPIError'', message = ''An unexpected error occurred'',
                       statusCode = None, response = JUndefined \<rparr>),
      [\<lparr> req_method = POST, url = ''/coats/result'',
         body = Some ''base%5Bextension%5D%5B%5D=E&base%5Bextension%5D%5B%5D=e&base%5Bagouti%5D%5B%5D=A&base%5Bagouti%5D%5B%5D=a&lang=en'',
         headers = [(''Content-Type'', ''application/x-www-form-urlencoded'')] \<rparr>,
       \<lparr> req_method = POST, url = ''/coats/result'',
         body = Some ''base%5Bextension%5D%5B%5D=E&base%5Bextension%5D%5B%5D=e&base%5Bagouti%5D%5B%5D=A&base%5Bagouti%5D%5B%5D=a&lang=en'',
         headers = [(''Content-Type'', ''application/x-www-form-urlencoded'')] \<rparr>])"
proof -
  let ?rq = "\<lparr> req_method = POST, url = ''/coats/result'',
         body = Some ''base%5Bextension%5D%5B%5D=E&base%5Bextension%5D%5B%5D=e&base%5Bagouti%5D%5B%5D=A&base%5Bagouti%5D%5B%5D=a&lang=en'',
         headers = [(''Content-Type'', ''application/x-www-form-urlencoded'')] \<rparr>"
  let ?unexpected = "APIError \<lparr> name = ''UnikhornAPIError'',
         message = ''An unexpected error occurred'', statusCode = None, response = JUndefined \<rparr>"
  have h1: "batchCalculate example_stringify example_client net_second_fails []
      [\<lparr> id' = ''a'', genes = example_genes \<rparr>] =
     (Inr [(''a'', JObj [(''translate'', JStr ''Bay'')])], [?rq])"
    by code_simp
  have h2: "calculateSingleCoat example_stringify example_client net_second_fails [?rq]
      (genes \<lparr> id' = ''b'', genes = example_genes \<rparr>) = (Inl ?unexpected, [?rq, ?rq])"
    by code_simp
  have h3: "handleError ?unexpected = ?unexpected"
    by (rule handleError_APIError)
  from batchCalculate_sequential[of example_stringify example_client net_second_fails "[]"
      "[\<lparr> id' = ''a'', genes = example_genes \<rparr>]" "\<lparr> id' = ''b'', genes = example_genes \<rparr>"
      "[\<lparr> id' = ''c'', genes = example_genes \<rparr>]"] h1 h2
  have "batchCalculate example_stringify example_client net_second_fails []
      ([\<lparr> id' = ''a'', genes = example_genes \<rparr>] @
       \<lparr> id' = ''b'', genes = example_genes \<rparr> # [\<lparr> id' = ''c'', genes = example_genes \<rparr>]) =
     (Inl (handleError ?unexpected), [?rq, ?rq])"
    by blast
  with h1 h2 h3 show ?thesis by simp
qed

text \<open>
  C5. For genes whose base holds a two-allele extension pair and a two-allele agouti pair,
  \<open>calculateSingleCoat\<close> builds the form with exactly these entries, in this order: the two
  \<open>base[extension][]\<close> entries with the extension alleles in order, the two
  \<open>base[agouti][]\<close> entries with the agouti alleles in order, \<open>lang\<close> with the language of
  the call if it has one and the language of the client otherwise, and an \<open>others\<close> entry
  holding the serialised mapping if and only if \<open>others\<close> is supplied; with \<open>others\<close>
  absent the form has no such entry. The one request sent is the POST to \<open>/coats/result\<close>
  whose body is the serialisation of that form, and parsing that body gives exactly these
  entries back.
\<close>

theorem calculateSingleCoat_form_body:
  assumes "base g = Some b" and "extension b = Some [e0, e1]" and "agouti b = Some [a0, a1]"
  shows "\<exists>formData.
     calculateSingleCoat_formData S self g = Inr formData \<and>
     formData =
       [(''base[extension][]'', e0), (''base[extension][]'', e1),
        (''base[agouti][]'', a0), (''base[agouti][]'', a1),
        (''lang'', lang_string (case lang g of Some l \<Rightarrow> l | None \<Rightarrow> this_language self))] @
       (case others g of Some ot \<Rightarrow> [(''others'', S (OthersArg ot))] | None \<Rightarrow> []) \<and>
     snd (calculateSingleCoat S self net log g) =
       log @ [\<lparr> req_method = POST, url = ''/coats/result'', body = Some (toString formData),
                headers = [(''Content-Type'', ''application/x-www-form-urlencoded'')] \<rparr>] \<and>
     URLSearchParams_parse (toString formData) = formData"
  using assms
  by (simp add: calculateSingleCoat_def calculateSingleCoat_formData_def append_entry_def
      index_string_def axios_request_def parse_toString split: option.splits sum.splits prod.splits)

theorem calculateSingleCoat_form_body_witness:
  "base (example_genes\<lparr> others := Some [(''dun'', JArr [JStr ''D'', JStr ''nd1''])], lang := Some fr \<rparr>) =
     Some \<lparr> extension = Some [''E'', ''e''], agouti = Some [''A'', ''a''] \<rparr> \<and>
   calculateSingleCoat_formData example_stringify example_client
       (example_genes\<lparr> others := Some [(''dun'', JArr [JStr ''D'', JStr ''nd1''])], lang := Some fr \<rparr>) =
     Inr [(''base[extension][]'', ''E''), (''base[extension][]'', ''e''),
          (''base[agouti][]'', ''A''), (''base[agouti][]'', ''a''),
          (''lang'', ''fr''), (''others'', ''{\"dun\":[\"D\",\"nd1\"]}'')] \<and>
   snd (calculateSingleCoat example_stringify example_client net_ok []
       (example_genes\<lparr> others := Some [(''dun'', JArr [JStr ''D'', JStr ''nd1''])], lang := Some fr \<rparr>)) =
     [\<lparr> req_method = POST, url = ''/coats/result'',
        body = Some ''base%5Bextension%5D%5B%5D=E&base%5Bextension%5D%5B%5D=e&base%5Bagouti%5D%5B%5D=A&base%5Bagouti%5D%5B%5D=a&lang=fr&others=%7B%22dun%22%3A%5B%22D%22%2C%22nd1%22%5D%7D'',
        headers = [(''Content-Type'', ''application/x-www-form-urlencoded'')] \<rparr>]"
proof -
  let ?g = "example_genes\<lparr> others := Some [(''dun'', JArr [JStr ''D'', JStr ''nd1''])], lang := Some fr \<rparr>"
  let ?b = "\<lparr> extension = Some [''E'', ''e''], agouti = Some [''A'', ''a''] \<rparr>"
  have b: "base ?g = Some ?b" by (simp add: example_genes_def)
  have e: "extension ?b = Some [''E'', ''e'']" by simp
  have a: "agouti ?b = Some [''A'', ''a'']" by simp
  have s: "toString [(''base[extension][]'', ''E''), (''base[extension][]'', ''e''),
          (''base[agouti][]'', ''A''), (''base[agouti][]'', ''a''),
          (''lang'', ''fr''), (''others'', ''{\"dun\":[\"D\",\"nd1\"]}'')] =
     ''base%5Bextension%5D%5B%5D=E&base%5Bextension%5D%5B%5D=e&base%5Bagouti%5D%5B%5D=A&base%5Bagouti%5D%5B%5D=a&lang=fr&others=%7B%22dun%22%3A%5B%22D%22%2C%22nd1%22%5D%7D''"
    by code_simp
  from calculateSingleCoat_form_body[OF b e a, of example_stringify example_client net_ok "[]"]
  obtain formData where
    f1: "calculateSingleCoat_formData example_stringify example_client ?g = Inr formData" and
    f2: "formData =
       [(''base[extension][]'', ''E''), (''base[extension][]'', ''e''),
        (''base[agouti][]'', ''A''), (''base[agouti][]'', ''a''),
        (''lang'', lang_string (case lang ?g of Some l \<Rightarrow> l | None \<Rightarrow> this_language example_client))] @
       (case others ?g of Some ot \<Rightarrow> [(''others'', example_stringify (OthersArg ot))] | None \<Rightarrow> [])" and
    f3: "snd (calculateSingleCoat example_stringify example_client net_ok [] ?g) =
       [] @ [\<lparr> req_method = POST, url = ''/coats/result'', body = Some (toString formData),
                headers = [(''Content-Type'', ''application/x-www-form-urlencoded'')] \<rparr>]"
    by blast
  from f2 have f2': "formData = [(''base[extension][]'', ''E''), (''base[extension][]'', ''e''),
          (''base[agouti][]'', ''A''), (''base[agouti][]'', ''a''),
          (''lang'', ''fr''), (''others'', ''{\"dun\":[\"D\",\"nd1\"]}'')]"
    by simp
  from b f1 f3 show ?thesis unfolding f2' s by simp
qed

text \<open>
  C6. \<open>calculateOffspring\<close> builds the form with exactly these entries, in this order:
  \<open>mother\<close> and \<open>father\<close>, each one field holding the serialisation of the whole parent;
  \<open>lang\<close>; \<open>kit_linkage\<close> holding its serialisation only when it is supplied; and \<open>has_IDK\<close>
  only when it is set, as the text \<open>true\<close> or \<open>false\<close>. With \<open>has_IDK\<close> unset the form has
  no such entry. The one request sent is the POST to \<open>/coats/generateChild\<close> whose body is
  the serialisation of that form, and parsing that body gives exactly these entries back.
\<close>

theorem calculateOffspring_form_body:
  "calculateOffspring_formData S self off =
     [(''mother'', S (GenesArg (mother off))),
      (''father'', S (GenesArg (father off))),
      (''lang'', lang_string (case offspring_lang off of Some l \<Rightarrow> l | None \<Rightarrow> this_language self))] @
     (case kit_linkage off of Some k \<Rightarrow> [(''kit_linkage'', S (LinkageArg k))] | None \<Rightarrow> []) @
     (case has_IDK off of
        None \<Rightarrow> []
      | Some True \<Rightarrow> [(''has_IDK'', ''true'')]
      | Some False \<Rightarrow> [(''has_IDK'', ''false'')]) \<and>
   snd (calculateOffspring S self net log off) =
     log @ [\<lparr> req_method = POST, url = ''/coats/generateChild'',
              body = Some (toString (calculateOffspring_formData S self off)),
              headers = [(''Content-Type'', ''application/x-www-form-urlencoded'')] \<rparr>] \<and>
   URLSearchParams_parse (toString (calculateOffspring_formData S self off)) =
     calculateOffspring_formData S self off"
proof (intro conjI)
  show "calculateOffspring_formData S self off =
     [(''mother'', S (GenesArg (mother off))),
      (''father'', S (GenesArg (father off))),
      (''lang'', lang_string (case offspring_lang off of Some l \<Rightarrow> l | None \<Rightarrow> this_language self))] @
     (case kit_linkage off of Some k \<Rightarrow> [(''kit_linkage'', S (LinkageArg k))] | None \<Rightarrow> []) @
     (case has_IDK off of
        None \<Rightarrow> []
      | Some True \<Rightarrow> [(''has_IDK'', ''true'')]
      | Some False \<Rightarrow> [(''has_IDK'', ''false'')])"
    by (simp add: calculateOffspring_formData_def append_entry_def split: option.split bool.split)
next
  show "snd (calculateOffspring S self net log off) =
     log @ [\<lparr> req_method = POST, url = ''/coats/generateChild'',
              body = Some (toString (calculateOffspring_formData S self off)),
              headers = [(''Content-Type'', ''application/x-www-form-urlencoded'')] \<rparr>]"
    by (rule calculateOffspring_log)
next
  show "URLSearchParams_parse (toString (calculateOffspring_formData S self off)) =
     calculateOffspring_formData S self off"
    by (rule parse_toString)
qed

text \<open>
  The three states of \<open>has_IDK\<close> on the example request: unset, \<open>false\<close> and \<open>true\<close>.
\<close>

theorem calculateOffspring_form_body_witness:
  "calculateOffspring_formData example_stringify example_client
       (example_offspring\<lparr> has_IDK := None \<rparr>) =
     [(''mother'', ''{\"base\":{\"extension\":[\"E\",\"e\"],\"agouti\":[\"A\",\"a\"]}}''),
      (''father'', ''{\"base\":{\"extension\":[\"E\",\"e\"],\"agouti\":[\"A\",\"a\"]}}''),
      (''lang'', ''fr'')] \<and>
   calculateOffspring_formData example_stringify example_client example_offspring =
     [(''mother'', ''{\"base\":{\"extension\":[\"E\",\"e\"],\"agouti\":[\"A\",\"a\"]}}''),
      (''father'', ''{\"base\":{\"extension\":[\"E\",\"e\"],\"agouti\":[\"A\",\"a\"]}}''),
      (''lang'', ''fr''), (''has_IDK'', ''false'')] \<and>
   calculateOffspring_formData example_stringify example_client
       (example_offspring\<lparr> kit_linkage := Some \<lparr> linkage_mother = None, linkage_father = None \<rparr>,
                           has_IDK := Some True \<rparr>) =
     [(''mother'', ''{\"base\":{\"extension\":[\"E\",\"e\"],\"agouti\":[\"A\",\"a\"]}}''),
      (''father'', ''{\"base\":{\"extension\":[\"E\",\"e\"],\"agouti\":[\"A\",\"a\"]}}''),
      (''lang'', ''fr''), (''kit_linkage'', ''{}''), (''has_IDK'', ''true'')]"
proof (intro conjI)
  show "calculateOffspring_formData example_stringify example_client
       (example_offspring\<lparr> has_IDK := None \<rparr>) =
     [(''mother'', ''{\"base\":{\"extension\":[\"E\",\"e\"],\"agouti\":[\"A\",\"a\"]}}''),
      (''father'', ''{\"base\":{\"extension\":[\"E\",\"e\"],\"agouti\":[\"A\",\"a\"]}}''),
      (''lang'', ''fr'')]"
    using calculateOffspring_form_body[of example_stringify example_client
        "example_offspring\<lparr> has_IDK := None \<rparr>" net_ok "[]"]
    by (simp add: example_offspring_def)
next
  show "calculateOffspring_formData example_stringify example_client example_offspring =
     [(''mother'', ''{\"base\":{\"extension\":[\"E\",\"e\"],\"agouti\":[\"A\",\"a\"]}}''),
      (''father'', ''{\"base\":{\"extension\":[\"E\",\"e\"],\"agouti\":[\"A\",\"a\"]}}''),
      (''lang'', ''fr''), (''has_IDK'', ''false'')]"
    by code_simp
next
  show "calculateOffspring_formData example_stringify example_client
       (example_offspring\<lparr> kit_linkage := Some \<lparr> linkage_mother = None, linkage_father = None \<rparr>,
                           has_IDK := Some True \<rparr>) =
     [(''mother'', ''{\"base\":{\"extension\":[\"E\",\"e\"],\"agouti\":[\"A\",\"a\"]}}''),
      (''father'', ''{\"base\":{\"extension\":[\"E\",\"e\"],\"agouti\":[\"A\",\"a\"]}}''),
      (''lang'', ''fr''), (''kit_linkage'', ''{}''), (''has_IDK'', ''true'')]"
    by code_simp
qed

text \<open>
  C7. \<open>validateGenes\<close> never rejects and sends no request: it returns a result and leaves
  the log as it was. With \<open>base\<close> present and both pairs of length 2 the result is valid
  with no error list. With \<open>base\<close> present, the extension pair and the agouti pair are
  checked one after the other, each adding its own message when its length is not 2, so
  that the error list holds the extension message, the agouti message, or both in that
  order; when both lengths are wrong both messages are reported.
\<close>

theorem validateGenes_local_check:
  "(\<exists>v. validateGenes self net log g = (Inr v, log)) \<and>
   (base g = Some b \<and> extension b = Some ext \<and> length ext = 2 \<and>
    agouti b = Some ago \<and> length ago = 2 \<longrightarrow>
      validateGenes self net log g = (Inr \<lparr> valid = True, errors = None \<rparr>, log)) \<and>
   (base g = Some b \<and> extension b = Some ext \<and> agouti b = Some ago \<longrightarrow>
      validateGenes self net log g =
        (let errs = (if length ext \<noteq> 2 then [''Extension gene must have exactly 2 alleles''] else []) @
                    (if length ago \<noteq> 2 then [''Agouti gene must have exactly 2 alleles''] else [])
         in (Inr \<lparr> valid = (errs = []), errors = (if errs = [] then None else Some errs) \<rparr>, log))) \<and>
   (base g = Some b \<and> extension b = Some ext \<and> length ext \<noteq> 2 \<and>
    agouti b = Some ago \<and> length ago \<noteq> 2 \<longrightarrow>
      validateGenes self net log g =
        (Inr \<lparr> valid = False,
                errors = Some [''Extension gene must have exactly 2 alleles'',
                               ''Agouti gene must have exactly 2 alleles''] \<rparr>, log))"
  by (simp add: validateGenes_def Let_def)

theorem validateGenes_local_check_witness:
  "validateGenes example_client net_ok [] example_genes =
     (Inr \<lparr> valid = True, errors = None \<rparr>, []) \<and>
   validateGenes example_client net_ok []
       \<lparr> base = Some \<lparr> extension = Some [''E''], agouti = Some [''A'', ''a'', ''a''] \<rparr>,
         others = None, lang = None \<rparr> =
     (Inr \<lparr> valid = False,
             errors = Some [''Extension gene must have exactly 2 alleles'',
                            ''Agouti gene must have exactly 2 alleles''] \<rparr>, [])"
proof
  have "base example_genes = Some \<lparr> extension = Some [''E'', ''e''], agouti = Some [''A'', ''a''] \<rparr> \<and>
        extension \<lparr> extension = Some [''E'', ''e''], agouti = Some [''A'', ''a''] \<rparr> = Some [''E'', ''e''] \<and>
        length [''E'', ''e''] = 2 \<and>
        agouti \<lparr> extension = Some [''E'', ''e''], agouti = Some [''A'', ''a''] \<rparr> = Some [''A'', ''a''] \<and>
        length [''A'', ''a''] = 2"
    by (simp add: example_genes_def)
  with validateGenes_local_check[of example_client net_ok "[]" example_genes
      "\<lparr> extension = Some [''E'', ''e''], agouti = Some [''A'', ''a''] \<rparr>"
      "[''E'', ''e'']" "[''A'', ''a'']"]
  show "validateGenes example_client net_ok [] example_genes =
     (Inr \<lparr> valid = True, errors = None \<rparr>, [])"
    by blast
next
  let ?g = "\<lparr> base = Some \<lparr> extension = Some [''E''], agouti = Some [''A'', ''a'', ''a''] \<rparr>,
         others = None, lang = None \<rparr>"
  have "base ?g = Some \<lparr> extension = Some [''E''], agouti = Some [''A'', ''a'', ''a''] \<rparr> \<and>
        extension \<lparr> extension = Some [''E''], agouti = Some [''A'', ''a'', ''a''] \<rparr> = Some [''E''] \<and>
        length [''E''] \<noteq> 2 \<and>
        agouti \<lparr> extension = Some [''E''], agouti = Some [''A'', ''a'', ''a''] \<rparr> = Some [''A'', ''a'', ''a''] \<and>
        length [''A'', ''a'', ''a''] \<noteq> 2"
    by simp
  with validateGenes_local_check[of example_client net_ok "[]" ?g
      "\<lparr> extension = Some [''E''], agouti = Some [''A'', ''a'', ''a''] \<rparr>"
      "[''E'']" "[''A'', ''a'', ''a'']"]
  show "validateGenes example_client net_ok [] ?g =
     (Inr \<lparr> valid = False,
             errors = Some [''Extension gene must have exactly 2 alleles'',
                            ''Agouti gene must have exactly 2 alleles''] \<rparr>, [])"
    by blast
qed

text \<open>
  C8. \<open>getAllCoatColors\<close> and \<open>getUsageStats\<close> reject with the \<open>UnikhornAPIError\<close> of the fixed
  message, without status code or response, for every client, network and log, and leave
  the log as it was: no request is sent.
\<close>

theorem unsupported_endpoints_reject:
  "getAllCoatColors self net log =
     (Inl (APIError \<lparr> name = ''UnikhornAPIError'',
                      message = ''This endpoint is not available in the current API version'',
                      statusCode = None, response = JUndefined \<rparr>), log) \<and>
   getUsageStats self net log =
     (Inl (APIError \<lparr> name = ''UnikhornAPIError'',
                      message = ''This endpoint is not available in the current API version'',
                      statusCode = None, response = JUndefined \<rparr>), log)"
  by (simp add: getAllCoatColors_def getUsageStats_def throw_new_string)

theorem unsupported_endpoints_reject_witness:
  "getAllCoatColors example_client net_ok [] =
     (Inl (APIError \<lparr> name = ''UnikhornAPIError'',
                      message = ''This endpoint is not available in the current API version'',
                      statusCode = None, response = JUndefined \<rparr>), []) \<and>
   getUsageStats example_client net_timeout [] =
     (Inl (APIError \<lparr> name = ''UnikhornAPIError'',
                      message = ''This endpoint is not available in the current API version'',
                      statusCode = None, response = JUndefined \<rparr>), [])"
  using unsupported_endpoints_reject[of example_client net_ok "[]"]
    unsupported_endpoints_reject[of example_client net_timeout "[]"]
  by blast

text \<open>
  C9. With an absent or empty API key the constructor fails with the error
  \<open>API key is required\<close> (the configuration error) and returns no client; constructing is a
  function of the configuration alone and sends nothing. With a non-empty key it returns
  a client whose base URL, timeout and language are the configured ones, and the defaults
  \<open>https://api.unikhorn.io/v1\<close>, 30000 and \<open>en\<close> where the configuration gives none.
\<close>

theorem constructor_checks_key:
  "((apiKey config = None \<or> apiKey config = Some '''') \<longrightarrow>
      new_UnikhornCoatCalculator config = Inl (PlainError ''API key is required'')) \<and>
   (\<forall>key. apiKey config = Some key \<and> key \<noteq> '''' \<longrightarrow>
      (\<exists>self. new_UnikhornCoatCalculator config = Inr self \<and>
         axios_baseURL (client self) =
           (case baseURL config of None \<Rightarrow> ''https://api.unikhorn.io/v1''
            | Some u \<Rightarrow> if u = '''' then ''https://api.unikhorn.io/v1'' else u) \<and>
         axios_timeout (client self) =
           (case timeout config of None \<Rightarrow> 30000 | Some t \<Rightarrow> if t = 0 then 30000 else t) \<and>
         this_language self = (case language config of None \<Rightarrow> en | Some l \<Rightarrow> l)))"
  by (auto simp: new_UnikhornCoatCalculator_def)

theorem constructor_checks_key_witness:
  "new_UnikhornCoatCalculator (example_config\<lparr> apiKey := Some '''' \<rparr>) =
     Inl (PlainError ''API key is required'') \<and>
   new_UnikhornCoatCalculator (example_config\<lparr> apiKey := None \<rparr>) =
     Inl (PlainError ''API key is required'') \<and>
   (\<exists>self. new_UnikhornCoatCalculator example_config = Inr self \<and>
      axios_baseURL (client self) = ''https://api.unikhorn.io/v1'' \<and>
      axios_timeout (client self) = 30000 \<and>
      this_language self = en)"
proof (intro conjI)
  have "apiKey (example_config\<lparr> apiKey := Some '''' \<rparr>) = Some ''''" by simp
  with constructor_checks_key[of "example_config\<lparr> apiKey := Some '''' \<rparr>"]
  show "new_UnikhornCoatCalculator (example_config\<lparr> apiKey := Some '''' \<rparr>) =
     Inl (PlainError ''API key is required'')"
    by blast
next
  have "apiKey (example_config\<lparr> apiKey := None \<rparr>) = None" by simp
  with constructor_checks_key[of "example_config\<lparr> apiKey := None \<rparr>"]
  show "new_UnikhornCoatCalculator (example_config\<lparr> apiKey := None \<rparr>) =
     Inl (PlainError ''API key is required'')"
    by blast
next
  have k: "apiKey example_config = Some ''test-key'' \<and> ''test-key'' \<noteq> ''''"
    by (simp add: example_config_def)
  have d: "baseURL example_config = None \<and> timeout example_config = None \<and>
           language example_config = None"
    by (simp add: example_config_def)
  from constructor_checks_key[of example_config] k
  obtain self where "new_UnikhornCoatCalculator example_config = Inr self"
    and "axios_baseURL (client self) =
           (case baseURL example_config of None \<Rightarrow> ''https://api.unikhorn.io/v1''
            | Some u \<Rightarrow> if u = '''' then ''https://api.unikhorn.io/v1'' else u)"
    and "axios_timeout (client self) =
           (case timeout example_config of None \<Rightarrow> 30000 | Some t \<Rightarrow> if t = 0 then 30000 else t)"
    and "this_language self = (case language example_config of None \<Rightarrow> en | Some l \<Rightarrow> l)"
    by blast
  with d show "\<exists>self. new_UnikhornCoatCalculator example_config = Inr self \<and>
      axios_baseURL (client self) = ''https://api.unikhorn.io/v1'' \<and>
      axios_timeout (client self) = 30000 \<and>
      this_language self = en"
    by simp
qed

text \<open>
  C10. For genes without \<open>base\<close>, \<open>validateGenes\<close> returns an invalid result whose error
  list is exactly the one message \<open>Base genes are required\<close>: the checks of the two pairs
  are not made, so no pair message accompanies it. No request is sent.
\<close>

theorem validateGenes_base_absent:
  "base g = None \<Longrightarrow>
     validateGenes self net log g =
       (Inr \<lparr> valid = False, errors = Some [''Base genes are required''] \<rparr>, log)"
  by (simp add: validateGenes_def)

theorem validateGenes_base_absent_witness:
  "base (example_genes\<lparr> base := None \<rparr>) = None \<and>
   validateGenes example_client net_ok [] (example_genes\<lparr> base := None \<rparr>) =
     (Inr \<lparr> valid = False, errors = Some [''Base genes are required''] \<rparr>, [])"
proof -
  have h: "base (example_genes\<lparr> base := None \<rparr>) = None" by simp
  from validateGenes_base_absent[OF h, of example_client net_ok "[]"] h
  show ?thesis by simp
qed

end
